theory Spec2Isabelle
  imports Main "HOL-Library.Word"
begin

section \<open>Python values\<close>

text \<open>
  The module \<^verbatim>\<open>dapr/clients/exceptions.py\<close> is dynamically typed: whatever the injected
  deserializer returns is stored in the error object. The values that can flow through the
  module are modelled by one datatype: \<^verbatim>\<open>None\<close>, \<^verbatim>\<open>bool\<close>, \<^verbatim>\<open>int\<close>, \<^verbatim>\<open>str\<close>, \<^verbatim>\<open>bytes\<close>,
  \<^verbatim>\<open>list\<close> and \<^verbatim>\<open>dict\<close> with string keys. A dictionary is an association list in
  insertion order, as Python dictionaries are ordered. These are values of built-in types:
  their truth test and their comparison with a string return and do not raise. Instances
  of other classes, which may define \<^verbatim>\<open>__bool__\<close> or \<^verbatim>\<open>__eq__\<close> as they like, are not
  modelled.
\<close>

type_synonym byte = "8 word"

datatype pyval =
    PNone
  | PBool bool
  | PInt int
  | PStr string
  | PBytes "byte list"
  | PList "pyval list"
  | PDict "(string \<times> pyval) list"

text \<open>
  What a call can raise. \<^verbatim>\<open>except Exception\<close> catches the instances of \<^verbatim>\<open>Exception\<close> only;
  an instance of \<^verbatim>\<open>BaseException\<close> that is not an \<^verbatim>\<open>Exception\<close> (\<^verbatim>\<open>KeyboardInterrupt\<close>,
  \<^verbatim>\<open>SystemExit\<close>) passes through it. The string is the name of the exception's class.
\<close>

datatype raised = Raised_Exception string | Raised_BaseException string

text \<open>Truth value testing, as \<^verbatim>\<open>bool(v)\<close> does it.\<close>

fun truthy :: "pyval \<Rightarrow> bool" where
  "truthy PNone = False"
| "truthy (PBool b) = b"
| "truthy (PInt i) = (i \<noteq> 0)"
| "truthy (PStr s) = (s \<noteq> [])"
| "truthy (PBytes bs) = (bs \<noteq> [])"
| "truthy (PList vs) = (vs \<noteq> [])"
| "truthy (PDict kvs) = (kvs \<noteq> [])"

text \<open>\<^verbatim>\<open>a or b\<close>.\<close>

definition py_or :: "pyval \<Rightarrow> pyval \<Rightarrow> pyval" where
  "py_or a b = (if truthy a then a else b)"

text \<open>\<^verbatim>\<open>isinstance(v, dict)\<close>.\<close>

fun isinstance_dict :: "pyval \<Rightarrow> bool" where
  "isinstance_dict (PDict kvs) = True"
| "isinstance_dict v = False"

text \<open>\<^verbatim>\<open>d.get(k, default)\<close>; \<^verbatim>\<open>d.get(k)\<close> is \<^verbatim>\<open>d.get(k, None)\<close>.\<close>

definition dict_get :: "(string \<times> pyval) list \<Rightarrow> string \<Rightarrow> pyval \<Rightarrow> pyval" where
  "dict_get d k dflt = (case map_of d k of None \<Rightarrow> dflt | Some v \<Rightarrow> v)"

fun pyval_get :: "pyval \<Rightarrow> string \<Rightarrow> pyval \<Rightarrow> pyval" where
  "pyval_get (PDict kvs) k dflt = dict_get kvs k dflt"
| "pyval_get v k dflt = dflt"

text \<open>\<^verbatim>\<open>d[k] = v\<close>: an existing key keeps its place, a new key goes last.\<close>

fun dict_set :: "(string \<times> pyval) list \<Rightarrow> string \<Rightarrow> pyval \<Rightarrow> (string \<times> pyval) list" where
  "dict_set [] k v = [(k, v)]"
| "dict_set ((k', v') # kvs) k v =
     (if k' = k then (k, v) # kvs else (k', v') # dict_set kvs k v)"

subsection \<open>Formatting integers\<close>

text \<open>\<^verbatim>\<open>str(n)\<close> for a Python \<^verbatim>\<open>int\<close>: the decimal digits, with a minus sign when negative.\<close>

function str_nat :: "nat \<Rightarrow> string" where
  "str_nat n =
     (if n < 10 then [char_of (48 + n)]
      else str_nat (n div 10) @ [char_of (48 + n mod 10)])"
  by pat_completeness auto
termination
  by (relation "measure id") auto

declare str_nat.simps [simp del]

definition str_int :: "int \<Rightarrow> string" where
  "str_int i = (if i < 0 then CHR ''-'' # str_nat (nat (- i)) else str_nat (nat i))"

text \<open>What \<^verbatim>\<open>f'{status_code}'\<close> prints for an \<^verbatim>\<open>Optional[int]\<close>.\<close>

definition str_opt_int :: "int option \<Rightarrow> string" where
  "str_opt_int sc = (case sc of None \<Rightarrow> ''None'' | Some i \<Rightarrow> str_int i)"

section \<open>DaprInternalError\<close>

definition ERROR_CODE_UNKNOWN :: string where
  "ERROR_CODE_UNKNOWN = ''UNKNOWN''"

definition ERROR_CODE_DOES_NOT_EXIST :: string where
  "ERROR_CODE_DOES_NOT_EXIST = ''ERR_DOES_NOT_EXIST''"

record DaprInternalError =
  message :: pyval
  error_code :: pyval
  raw_response_bytes :: "byte list option"

text \<open>
  The constructor. An argument that the caller leaves out is \<open>None\<close> here and takes the
  default of the signature (\<^verbatim>\<open>error_code = ERROR_CODE_UNKNOWN\<close>, \<^verbatim>\<open>raw_response_bytes = None\<close>);
  an argument that is passed is stored as it is.
\<close>

definition DaprInternalError_init ::
  "pyval \<Rightarrow> pyval option \<Rightarrow> byte list option option \<Rightarrow> DaprInternalError" where
  "DaprInternalError_init msg code raw =
     \<lparr> message = msg,
       error_code = (case code of None \<Rightarrow> PStr ERROR_CODE_UNKNOWN | Some c \<Rightarrow> c),
       raw_response_bytes = (case raw of None \<Rightarrow> None | Some r \<Rightarrow> r) \<rparr>"

section \<open>DaprHttpError\<close>

record DaprHttpError = DaprInternalError +
  status_code :: "int option"
  reason :: "string option"

text \<open>
  The serializer is the caller's: \<^verbatim>\<open>deserialize(bytes)\<close> returns a value or raises.
\<close>

type_synonym Serializer = "byte list \<Rightarrow> raised + pyval"

text \<open>
  Lines 117 to 133 of the constructor: the values of the locals \<^verbatim>\<open>message\<close>,
  \<^verbatim>\<open>error_code\<close> and \<^verbatim>\<open>raw_response_bytes\<close> when line 135 is reached, with the list of
  the calls made to the deserializer on the way. \<^verbatim>\<open>except Exception\<close> leaves
  \<^verbatim>\<open>error_info\<close> at \<^verbatim>\<open>None\<close>; what it does not catch leaves the constructor.
\<close>

definition read_error_info :: "pyval \<Rightarrow> pyval \<times> pyval" where
  "read_error_info error_info =
     (if truthy error_info \<and> isinstance_dict error_info
      then (pyval_get error_info ''message'' PNone,
            py_or (pyval_get error_info ''errorCode'' PNone) (PStr ERROR_CODE_UNKNOWN))
      else (PNone, PStr ERROR_CODE_UNKNOWN))"

definition DaprHttpError_classify ::
  "Serializer \<Rightarrow> byte list option \<Rightarrow> int option
     \<Rightarrow> byte list list \<times> (raised + pyval \<times> pyval \<times> byte list option)" where
  "DaprHttpError_classify serializer raw sc =
     (if (case raw of None \<Rightarrow> True | Some bs \<Rightarrow> length bs = 0) \<and> sc = Some 404
      then ([], Inr (PNone, PStr ERROR_CODE_DOES_NOT_EXIST, None))
      else
        (case raw of
           None \<Rightarrow> ([], Inr (PNone, PStr ERROR_CODE_UNKNOWN, raw))
         | Some bs \<Rightarrow>
             if bs = [] then ([], Inr (PNone, PStr ERROR_CODE_UNKNOWN, raw))
             else
               (case serializer bs of
                  Inr v \<Rightarrow>
                    ([bs], Inr (fst (read_error_info v), snd (read_error_info v), raw))
                | Inl (Raised_Exception n) \<Rightarrow>
                    ([bs], Inr (fst (read_error_info PNone), snd (read_error_info PNone), raw))
                | Inl (Raised_BaseException n) \<Rightarrow>
                    ([bs], Inl (Raised_BaseException n)))))"

definition http_status_message :: "int option \<Rightarrow> string" where
  "http_status_message sc = ''HTTP status code: '' @ str_opt_int sc"

text \<open>
  The constructor: the fields \<^verbatim>\<open>_status_code\<close> and \<^verbatim>\<open>_reason\<close>, and the call of the base
  class's constructor at line 135 with \<^verbatim>\<open>message or f'HTTP status code: {status_code}'\<close>.
  The first component is the list of the calls made to the deserializer.
\<close>

definition DaprHttpError_init_traced ::
  "Serializer \<Rightarrow> byte list option \<Rightarrow> int option \<Rightarrow> string option
     \<Rightarrow> byte list list \<times> (raised + DaprHttpError)" where
  "DaprHttpError_init_traced serializer raw sc rsn =
     (case DaprHttpError_classify serializer raw sc of
        (calls, Inl exn) \<Rightarrow> (calls, Inl exn)
      | (calls, Inr (msg, code, raw')) \<Rightarrow>
          (calls,
           Inr (DaprInternalError.extend
                  (DaprInternalError_init
                     (py_or msg (PStr (http_status_message sc))) (Some code) (Some raw'))
                  (DaprHttpError.fields sc rsn))))"

definition DaprHttpError_init ::
  "Serializer \<Rightarrow> byte list option \<Rightarrow> int option \<Rightarrow> string option \<Rightarrow> raised + DaprHttpError" where
  "DaprHttpError_init serializer raw sc rsn = snd (DaprHttpError_init_traced serializer raw sc rsn)"

text \<open>Two serializers for concrete runs: one that returns a value, one that raises.\<close>

definition returning :: "pyval \<Rightarrow> Serializer" where
  "returning v = (\<lambda>bs. Inr v)"

definition raising :: "raised \<Rightarrow> Serializer" where
  "raising exn = (\<lambda>bs. Inl exn)"

subsection \<open>String rendering\<close>

text \<open>
  \<^verbatim>\<open>str\<close>, \<^verbatim>\<open>None\<close>, \<^verbatim>\<open>bool\<close> and \<^verbatim>\<open>int\<close> are formatted here; the \<^verbatim>\<open>repr\<close> of \<^verbatim>\<open>bytes\<close> and
  of containers is the interpreter's and is a parameter.
\<close>

text \<open>What an f-string prints for a value.\<close>

definition py_str :: "(pyval \<Rightarrow> string) \<Rightarrow> pyval \<Rightarrow> string" where
  "py_str repr v =
     (case v of
        PStr s \<Rightarrow> s
      | PNone \<Rightarrow> ''None''
      | PBool b \<Rightarrow> (if b then ''True'' else ''False'')
      | PInt i \<Rightarrow> str_int i
      | _ \<Rightarrow> repr v)"

definition DaprHttpError_str :: "(pyval \<Rightarrow> string) \<Rightarrow> DaprHttpError \<Rightarrow> string" where
  "DaprHttpError_str repr e =
     (if error_code e \<noteq> PStr ERROR_CODE_UNKNOWN
      then py_str repr (message e) @ '' (Error Code: '' @ py_str repr (error_code e)
             @ '', Status Code: '' @ str_opt_int (status_code e) @ '')''
      else ''Unknown Dapr Error. HTTP status code: '' @ str_opt_int (status_code e) @ ''.'')"

section \<open>StatusDetails\<close>

record StatusDetails =
  error_info :: pyval
  retry_info :: pyval
  debug_info :: pyval
  quota_failure :: pyval
  precondition_failure :: pyval
  bad_request :: pyval
  request_info :: pyval
  resource_info :: pyval
  "help" :: pyval
  localized_message :: pyval

section \<open>The json module\<close>

text \<open>
  \<^verbatim>\<open>json.dumps\<close> and \<^verbatim>\<open>json.loads\<close> belong to the standard library. They are modelled on
  the JSON document, the abstract syntax of the text that \<^verbatim>\<open>dumps\<close> writes and \<^verbatim>\<open>loads\<close>
  reads: \<^verbatim>\<open>dumps\<close> raises \<^verbatim>\<open>TypeError\<close> on \<^verbatim>\<open>bytes\<close>, at any depth; \<^verbatim>\<open>loads\<close> builds a
  dictionary by assigning the members of an object in order, so that of two members with
  the same name the later value stays.
\<close>

datatype json =
    JNull
  | JBool bool
  | JNumber int
  | JString string
  | JArray "json list"
  | JObject "(string \<times> json) list"

fun json_dumps :: "pyval \<Rightarrow> raised + json"
  and json_dumps_list :: "pyval list \<Rightarrow> raised + json list"
  and json_dumps_items :: "(string \<times> pyval) list \<Rightarrow> raised + (string \<times> json) list" where
  "json_dumps PNone = Inr JNull"
| "json_dumps (PBool b) = Inr (JBool b)"
| "json_dumps (PInt i) = Inr (JNumber i)"
| "json_dumps (PStr s) = Inr (JString s)"
| "json_dumps (PBytes bs) = Inl (Raised_Exception ''TypeError'')"
| "json_dumps (PList vs) =
     (case json_dumps_list vs of Inl exn \<Rightarrow> Inl exn | Inr js \<Rightarrow> Inr (JArray js))"
| "json_dumps (PDict kvs) =
     (case json_dumps_items kvs of Inl exn \<Rightarrow> Inl exn | Inr js \<Rightarrow> Inr (JObject js))"
| "json_dumps_list [] = Inr []"
| "json_dumps_list (v # vs) =
     (case json_dumps v of
        Inl exn \<Rightarrow> Inl exn
      | Inr j \<Rightarrow> (case json_dumps_list vs of Inl exn \<Rightarrow> Inl exn | Inr js \<Rightarrow> Inr (j # js)))"
| "json_dumps_items [] = Inr []"
| "json_dumps_items ((k, v) # kvs) =
     (case json_dumps v of
        Inl exn \<Rightarrow> Inl exn
      | Inr j \<Rightarrow>
          (case json_dumps_items kvs of Inl exn \<Rightarrow> Inl exn | Inr js \<Rightarrow> Inr ((k, j) # js)))"

fun json_loads :: "json \<Rightarrow> pyval"
  and json_loads_list :: "json list \<Rightarrow> pyval list"
  and json_loads_items :: "(string \<times> pyval) list \<Rightarrow> (string \<times> json) list \<Rightarrow> (string \<times> pyval) list" where
  "json_loads JNull = PNone"
| "json_loads (JBool b) = PBool b"
| "json_loads (JNumber i) = PInt i"
| "json_loads (JString s) = PStr s"
| "json_loads (JArray js) = PList (json_loads_list js)"
| "json_loads (JObject kjs) = PDict (json_loads_items [] kjs)"
| "json_loads_list [] = []"
| "json_loads_list (j # js) = json_loads j # json_loads_list js"
| "json_loads_items acc [] = acc"
| "json_loads_items acc ((k, j) # kjs) = json_loads_items (dict_set acc k (json_loads j)) kjs"

text \<open>
  The values that \<^verbatim>\<open>dumps\<close> accepts: no \<^verbatim>\<open>bytes\<close> at any depth. The keys of a dictionary
  are distinct, as they are in every Python dictionary.
\<close>

fun json_ok :: "pyval \<Rightarrow> bool"
  and json_ok_list :: "pyval list \<Rightarrow> bool"
  and json_ok_items :: "(string \<times> pyval) list \<Rightarrow> bool" where
  "json_ok (PBytes bs) = False"
| "json_ok (PList vs) = json_ok_list vs"
| "json_ok (PDict kvs) = (distinct (map fst kvs) \<and> json_ok_items kvs)"
| "json_ok v = True"
| "json_ok_list [] = True"
| "json_ok_list (v # vs) = (json_ok v \<and> json_ok_list vs)"
| "json_ok_items [] = True"
| "json_ok_items ((k, v) # kvs) = (json_ok v \<and> json_ok_items kvs)"

section \<open>base64\<close>

text \<open>
  \<^verbatim>\<open>base64.b64encode(bs).decode('utf-8')\<close>: three bytes give four characters of the
  alphabet, and the last group is padded with \<^verbatim>\<open>=\<close>. The output is ASCII, which UTF-8
  decodes character by character, so the model produces the text at once.
\<close>

definition b64_alphabet :: string where
  "b64_alphabet = ''ABCDEFGHIJKLMNOPQRSTUVWXYZabcdefghijklmnopqrstuvwxyz0123456789+/''"

definition b64_char :: "nat \<Rightarrow> char" where
  "b64_char n = b64_alphabet ! (n mod 64)"

fun b64encode :: "byte list \<Rightarrow> string" where
  "b64encode [] = []"
| "b64encode [a] =
     (let n = unat a * 16
      in [b64_char (n div 64), b64_char n, CHR ''='', CHR ''=''])"
| "b64encode [a, b] =
     (let n = unat a * 1024 + unat b * 4
      in [b64_char (n div 4096), b64_char (n div 64), b64_char n, CHR ''=''])"
| "b64encode (a # b # c # rest) =
     (let n = unat a * 65536 + unat b * 256 + unat c
      in [b64_char (n div 262144), b64_char (n div 4096), b64_char (n div 64), b64_char n]
           @ b64encode rest)"


section \<open>Dictionaries of the errors\<close>

text \<open>\<^verbatim>\<open>Optional[str]\<close>, \<^verbatim>\<open>Optional[int]\<close> and \<^verbatim>\<open>Optional[bytes]\<close> as Python values.\<close>

definition opt_str :: "string option \<Rightarrow> pyval" where
  "opt_str s = (case s of None \<Rightarrow> PNone | Some t \<Rightarrow> PStr t)"








definition StatusDetails_init :: StatusDetails where
  "StatusDetails_init =
     \<lparr> error_info = PNone, retry_info = PNone, debug_info = PNone, quota_failure = PNone,
       precondition_failure = PNone, bad_request = PNone, request_info = PNone,
       resource_info = PNone, help = PNone, localized_message = PNone \<rparr>"

definition StatusDetails_as_dict :: "StatusDetails \<Rightarrow> (string \<times> pyval) list" where
  "StatusDetails_as_dict sd =
     [(''error_info'', error_info sd),
      (''retry_info'', retry_info sd),
      (''debug_info'', debug_info sd),
      (''quota_failure'', quota_failure sd),
      (''precondition_failure'', precondition_failure sd),
      (''bad_request'', bad_request sd),
      (''request_info'', request_info sd),
      (''resource_info'', resource_info sd),
      (''help'', help sd),
      (''localized_message'', localized_message sd)]"

section \<open>DaprGrpcError\<close>

text \<open>
  The objects of gRPC and protobuf are taken by what the module observes of them:
  a member of the enumeration \<^verbatim>\<open>grpc.StatusCode\<close> has a name and a value; a detail entry
  (a protobuf \<^verbatim>\<open>Any\<close>) answers \<^verbatim>\<open>Is(descriptor)\<close> for a descriptor given by its full name,
  has a truth value, and \<^verbatim>\<open>MessageToDict\<close> converts it to a dictionary or raises; an
  \<^verbatim>\<open>RpcError\<close> has \<^verbatim>\<open>code()\<close>, \<^verbatim>\<open>details()\<close> and what \<^verbatim>\<open>rpc_status.from_call\<close> makes of
  it: a status, \<^verbatim>\<open>None\<close>, or an exception (the library raises \<^verbatim>\<open>ValueError\<close> when the
  status in the trailing metadata does not match the call's code or details).
\<close>

record StatusCode =
  enum_name :: string
  enum_value :: int

record Any =
  Is :: "string \<Rightarrow> bool"
  is_truthy :: bool
  MessageToDict :: "raised + (string \<times> pyval) list"

record Status =
  details :: "Any list"

record RpcError =
  rpc_code :: StatusCode
  rpc_details :: "string option"
  rpc_status_from_call :: "raised + Status option"

record DaprGrpcError =
  grpc_status_code :: StatusCode
  err_message :: "string option"
  grpc_details :: StatusDetails
  grpc_status :: "Status option"

definition serialize_status_detail :: "Any \<Rightarrow> raised + pyval" where
  "serialize_status_detail status_detail =
     (if \<not> is_truthy status_detail then Inr PNone
      else (case MessageToDict status_detail of
              Inl exn \<Rightarrow> Inl exn
            | Inr d \<Rightarrow> Inr (PDict d)))"

text \<open>One turn of the loop of \<^verbatim>\<open>_parse_details\<close>: the chain of \<^verbatim>\<open>if\<close> and \<^verbatim>\<open>elif\<close>.\<close>

definition parse_detail :: "StatusDetails \<Rightarrow> Any \<Rightarrow> raised + StatusDetails" where
  "parse_detail sd detail =
     (if Is detail ''google.rpc.ErrorInfo'' then
        (case serialize_status_detail detail of
           Inl exn \<Rightarrow> Inl exn | Inr v \<Rightarrow> Inr (sd\<lparr>error_info := v\<rparr>))
      else if Is detail ''google.rpc.RetryInfo'' then
        (case serialize_status_detail detail of
           Inl exn \<Rightarrow> Inl exn | Inr v \<Rightarrow> Inr (sd\<lparr>retry_info := v\<rparr>))
      else if Is detail ''google.rpc.DebugInfo'' then
        (case serialize_status_detail detail of
           Inl exn \<Rightarrow> Inl exn | Inr v \<Rightarrow> Inr (sd\<lparr>debug_info := v\<rparr>))
      else if Is detail ''google.rpc.QuotaFailure'' then
        (case serialize_status_detail detail of
           Inl exn \<Rightarrow> Inl exn | Inr v \<Rightarrow> Inr (sd\<lparr>quota_failure := v\<rparr>))
      else if Is detail ''google.rpc.PreconditionFailure'' then
        (case serialize_status_detail detail of
           Inl exn \<Rightarrow> Inl exn | Inr v \<Rightarrow> Inr (sd\<lparr>precondition_failure := v\<rparr>))
      else if Is detail ''google.rpc.BadRequest'' then
        (case serialize_status_detail detail of
           Inl exn \<Rightarrow> Inl exn | Inr v \<Rightarrow> Inr (sd\<lparr>bad_request := v\<rparr>))
      else if Is detail ''google.rpc.RequestInfo'' then
        (case serialize_status_detail detail of
           Inl exn \<Rightarrow> Inl exn | Inr v \<Rightarrow> Inr (sd\<lparr>request_info := v\<rparr>))
      else if Is detail ''google.rpc.ResourceInfo'' then
        (case serialize_status_detail detail of
           Inl exn \<Rightarrow> Inl exn | Inr v \<Rightarrow> Inr (sd\<lparr>resource_info := v\<rparr>))
      else if Is detail ''google.rpc.Help'' then
        (case serialize_status_detail detail of
           Inl exn \<Rightarrow> Inl exn | Inr v \<Rightarrow> Inr (sd\<lparr>help := v\<rparr>))
      else if Is detail ''google.rpc.LocalizedMessage'' then
        (case serialize_status_detail detail of
           Inl exn \<Rightarrow> Inl exn | Inr v \<Rightarrow> Inr (sd\<lparr>localized_message := v\<rparr>))
      else Inr sd)"

fun parse_details_loop :: "StatusDetails \<Rightarrow> Any list \<Rightarrow> raised + StatusDetails" where
  "parse_details_loop sd [] = Inr sd"
| "parse_details_loop sd (detail # rest) =
     (case parse_detail sd detail of
        Inl exn \<Rightarrow> Inl exn
      | Inr sd' \<Rightarrow> parse_details_loop sd' rest)"

definition parse_details :: "StatusDetails \<Rightarrow> Status option \<Rightarrow> raised + StatusDetails" where
  "parse_details sd st =
     (case st of None \<Rightarrow> Inr sd | Some s \<Rightarrow> parse_details_loop sd (details s))"

definition DaprGrpcError_init :: "RpcError \<Rightarrow> raised + DaprGrpcError" where
  "DaprGrpcError_init err =
     (case rpc_status_from_call err of
        Inl exn \<Rightarrow> Inl exn
      | Inr st \<Rightarrow>
          (case parse_details StatusDetails_init st of
             Inl exn \<Rightarrow> Inl exn
           | Inr sd \<Rightarrow>
               Inr \<lparr> grpc_status_code = rpc_code err, err_message = rpc_details err,
                     grpc_details = sd, grpc_status = st \<rparr>))"

definition DaprGrpcError_code :: "DaprGrpcError \<Rightarrow> StatusCode" where
  "DaprGrpcError_code e = grpc_status_code e"

definition DaprGrpcError_details :: "DaprGrpcError \<Rightarrow> string option" where
  "DaprGrpcError_details e = err_message e"

definition DaprGrpcError_status_details :: "DaprGrpcError \<Rightarrow> StatusDetails" where
  "DaprGrpcError_status_details e = grpc_details e"

definition DaprGrpcError_get_grpc_status :: "DaprGrpcError \<Rightarrow> Status option" where
  "DaprGrpcError_get_grpc_status e = grpc_status e"

text \<open>
  \<^verbatim>\<open>StatusDetails\<close> defines neither \<^verbatim>\<open>__bool__\<close> nor \<^verbatim>\<open>__len__\<close>: its instances are true.
\<close>

definition object_truthy :: "StatusDetails \<Rightarrow> bool" where
  "object_truthy sd = True"

text \<open>
  \<^verbatim>\<open>error_code()\<close>. A value of \<^verbatim>\<open>error_info\<close> that is true and has no \<^verbatim>\<open>get\<close> raises
  \<^verbatim>\<open>AttributeError\<close>.
\<close>

definition DaprGrpcError_error_code :: "DaprGrpcError \<Rightarrow> raised + pyval" where
  "DaprGrpcError_error_code e =
     (if \<not> object_truthy (DaprGrpcError_status_details e)
         \<or> \<not> truthy (error_info (DaprGrpcError_status_details e))
      then Inr (PStr ERROR_CODE_UNKNOWN)
      else (case error_info (DaprGrpcError_status_details e) of
              PDict d \<Rightarrow> Inr (dict_get d ''reason'' (PStr ERROR_CODE_UNKNOWN))
            | _ \<Rightarrow> Inl (Raised_Exception ''AttributeError'')))"

definition DaprGrpcError_json :: "DaprGrpcError \<Rightarrow> raised + json" where
  "DaprGrpcError_json e =
     (case DaprGrpcError_error_code e of
        Inl exn \<Rightarrow> Inl exn
      | Inr code \<Rightarrow>
          json_dumps
            (PDict
               [(''status_code'', PStr (enum_name (DaprGrpcError_code e))),
                (''message'', opt_str (DaprGrpcError_details e)),
                (''error_code'', code),
                (''details'', PDict (StatusDetails_as_dict (grpc_details e)))]))"

text \<open>Objects for concrete runs.\<close>

definition no_repr :: "pyval \<Rightarrow> string" where
  "no_repr v = []"

definition detail_of :: "string \<Rightarrow> (string \<times> pyval) list \<Rightarrow> Any" where
  "detail_of full_name d =
     \<lparr> Is = (\<lambda>n. n = full_name), is_truthy = True, MessageToDict = Inr d \<rparr>"

text \<open>
  The ten detail kinds that \<^verbatim>\<open>_parse_details\<close> tests for, by the full names of their
  descriptors, and the detail entries that one of the tests accepts.
\<close>

definition known_detail_kinds :: "string list" where
  "known_detail_kinds =
     [''google.rpc.ErrorInfo'', ''google.rpc.RetryInfo'', ''google.rpc.DebugInfo'',
      ''google.rpc.QuotaFailure'', ''google.rpc.PreconditionFailure'', ''google.rpc.BadRequest'',
      ''google.rpc.RequestInfo'', ''google.rpc.ResourceInfo'', ''google.rpc.Help'',
      ''google.rpc.LocalizedMessage'']"

definition recognised :: "Any \<Rightarrow> bool" where
  "recognised detail = list_ex (Is detail) known_detail_kinds"

text \<open>
  A failed call whose status carries a detail of an unknown kind and an error-info detail
  with the reason \<^verbatim>\<open>QUOTA_EXCEEDED\<close>, the error constructed from it, and a failed call on
  which \<^verbatim>\<open>rpc_status.from_call\<close> raises \<^verbatim>\<open>ValueError\<close>.
\<close>

definition quota_detail :: Any where
  "quota_detail =
     detail_of ''google.rpc.ErrorInfo''
       [(''@type'', PStr ''type.googleapis.com/google.rpc.ErrorInfo''),
        (''reason'', PStr ''QUOTA_EXCEEDED''), (''domain'', PStr ''dapr.io'')]"

definition unknown_detail :: Any where
  "unknown_detail = detail_of ''example.Custom'' [(''@type'', PStr ''type.googleapis.com/example.Custom'')]"

definition quota_err :: RpcError where
  "quota_err =
     \<lparr> rpc_code = \<lparr> enum_name = ''RESOURCE_EXHAUSTED'', enum_value = 8 \<rparr>,
       rpc_details = Some ''quota exceeded'',
       rpc_status_from_call = Inr (Some \<lparr> details = [unknown_detail, quota_detail] \<rparr>) \<rparr>"

definition quota_error :: DaprGrpcError where
  "quota_error =
     \<lparr> grpc_status_code = \<lparr> enum_name = ''RESOURCE_EXHAUSTED'', enum_value = 8 \<rparr>,
       err_message = Some ''quota exceeded'',
       grpc_details = StatusDetails_init
         \<lparr> error_info :=
             PDict [(''@type'', PStr ''type.googleapis.com/google.rpc.ErrorInfo''),
                    (''reason'', PStr ''QUOTA_EXCEEDED''), (''domain'', PStr ''dapr.io'')] \<rparr>,
       grpc_status = Some \<lparr> details = [unknown_detail, quota_detail] \<rparr> \<rparr>"

definition mismatch_err :: RpcError where
  "mismatch_err =
     \<lparr> rpc_code = \<lparr> enum_name = ''INTERNAL'', enum_value = 13 \<rparr>,
       rpc_details = Some ''boom'',
       rpc_status_from_call = Inl (Raised_Exception ''ValueError'') \<rparr>"

section \<open>Evaluation lemmas\<close>

lemma str_int_404: "str_int 404 = ''404''"
  by code_simp

lemma http_status_message_404: "http_status_message (Some 404) = ''HTTP status code: 404''"
  by (simp add: http_status_message_def str_opt_int_def str_int_404)

lemma str_int_500: "str_int 500 = ''500''"
  by code_simp

lemmas http_init_defs =
  DaprHttpError_init_def DaprHttpError_init_traced_def DaprHttpError_classify_def
  read_error_info_def DaprInternalError_init_def DaprInternalError.extend_def
  DaprHttpError.fields_def py_or_def ERROR_CODE_UNKNOWN_def ERROR_CODE_DOES_NOT_EXIST_def

section \<open>DaprHttpError: the constructor's classification\<close>

text \<open>
  C1. A DaprHttpError constructed with status code 404 and a body that is \<^verbatim>\<open>None\<close> or empty
  has the error code \<^verbatim>\<open>ERR_DOES_NOT_EXIST\<close>, no raw response bytes and the message
  \<^verbatim>\<open>HTTP status code: 404\<close>; the deserializer is not called.
\<close>

theorem http_404_empty_body:
  assumes "raw = None \<or> raw = Some []"
  shows "DaprHttpError_init_traced serializer raw (Some 404) rsn =
           ([], Inr \<lparr> message = PStr ''HTTP status code: 404'',
                      error_code = PStr ''ERR_DOES_NOT_EXIST'',
                      raw_response_bytes = None,
                      status_code = Some 404, reason = rsn \<rparr>)"
  using assms by (auto simp: http_init_defs http_status_message_404)

theorem http_404_empty_body_witness:
  "DaprHttpError_init_traced (raising (Raised_Exception ''ValueError'')) (Some []) (Some 404)
       (Some ''Not Found'') =
     ([], Inr \<lparr> message = PStr ''HTTP status code: 404'',
                error_code = PStr ''ERR_DOES_NOT_EXIST'',
                raw_response_bytes = None,
                status_code = Some 404, reason = Some ''Not Found'' \<rparr>)"
  using http_404_empty_body [of "Some []"] by simp

text \<open>
  C2. When the body is not empty and the deserializer raises an instance of \<^verbatim>\<open>Exception\<close>
  on it (what \<^verbatim>\<open>except Exception\<close> at line 127 catches), the constructor returns an error
  with the error code \<^verbatim>\<open>UNKNOWN\<close>, the message \<^verbatim>\<open>HTTP status code: {status_code}\<close> and the
  body as it was given.
\<close>

theorem http_deserialize_raises:
  assumes "bs \<noteq> []" and "serializer bs = Inl (Raised_Exception n)"
  shows "DaprHttpError_init serializer (Some bs) sc rsn =
           Inr \<lparr> message = PStr (''HTTP status code: '' @ str_opt_int sc),
                 error_code = PStr ''UNKNOWN'',
                 raw_response_bytes = Some bs,
                 status_code = sc, reason = rsn \<rparr>"
  using assms by (auto simp: http_init_defs http_status_message_def)

theorem http_deserialize_raises_witness:
  "DaprHttpError_init (raising (Raised_Exception ''JSONDecodeError'')) (Some [0x7B]) (Some 500) None =
     Inr \<lparr> message = PStr ''HTTP status code: 500'',
           error_code = PStr ''UNKNOWN'',
           raw_response_bytes = Some [0x7B],
           status_code = Some 500, reason = None \<rparr>"
  using http_deserialize_raises [of "[0x7B]" "raising (Raised_Exception ''JSONDecodeError'')"
      "''JSONDecodeError''" "Some 500" None]
  by (simp add: raising_def str_opt_int_def str_int_500)

text \<open>
  The claim as it was stated covers any exception of the deserializer. An exception that
  is not an instance of \<^verbatim>\<open>Exception\<close>, such as \<^verbatim>\<open>KeyboardInterrupt\<close>, is not caught at
  line 127 and leaves the constructor: no error object is constructed.
\<close>

theorem http_deserialize_base_exception_counterexample:
  "DaprHttpError_init (raising (Raised_BaseException ''KeyboardInterrupt'')) (Some [0x7B])
       (Some 500) None =
     Inl (Raised_BaseException ''KeyboardInterrupt'')"
  by (simp add: http_init_defs raising_def)

text \<open>
  C10. With the empty byte string as body and a status code other than 404 (\<^verbatim>\<open>None\<close>
  included), the deserializer is not called, the error code is \<^verbatim>\<open>UNKNOWN\<close>, the message is
  \<^verbatim>\<open>HTTP status code: {status_code}\<close>, and the raw response bytes stay the empty byte
  string: only the 404 branch replaces them by \<^verbatim>\<open>None\<close>.
\<close>

theorem http_empty_bytes_not_404:
  assumes "sc \<noteq> Some 404"
  shows "DaprHttpError_init_traced serializer (Some []) sc rsn =
           ([], Inr \<lparr> message = PStr (''HTTP status code: '' @ str_opt_int sc),
                      error_code = PStr ''UNKNOWN'',
                      raw_response_bytes = Some [],
                      status_code = sc, reason = rsn \<rparr>)"
  using assms by (auto simp: http_init_defs http_status_message_def)

theorem http_empty_bytes_not_404_witness:
  "DaprHttpError_init_traced (returning (PDict [(''errorCode'', PStr ''ERR_X'')])) (Some []) None None =
     ([], Inr \<lparr> message = PStr ''HTTP status code: None'',
                error_code = PStr ''UNKNOWN'',
                raw_response_bytes = Some [],
                status_code = None, reason = None \<rparr>)"
  using http_empty_bytes_not_404 [of None] by (simp add: str_opt_int_def)

text \<open>
  C4. When the body is not empty and deserializes to a mapping, the
  message of the error is the mapping's \<^verbatim>\<open>message\<close> when that value is true, and
  \<^verbatim>\<open>HTTP status code: {status_code}\<close> when it is absent or false (\<^verbatim>\<open>None\<close>, the empty
  string, zero, an empty container); the error code is the mapping's \<^verbatim>\<open>errorCode\<close> when
  that value is true, and \<^verbatim>\<open>UNKNOWN\<close> when it is absent or false.
\<close>

theorem http_body_mapping:
  assumes "bs \<noteq> []" and "serializer bs = Inr (PDict d)"
  shows "\<exists>e. DaprHttpError_init serializer (Some bs) sc rsn = Inr e
           \<and> message e =
               (case map_of d ''message'' of
                  None \<Rightarrow> PStr (''HTTP status code: '' @ str_opt_int sc)
                | Some m \<Rightarrow> if truthy m then m else PStr (''HTTP status code: '' @ str_opt_int sc))
           \<and> error_code e =
               (case map_of d ''errorCode'' of
                  None \<Rightarrow> PStr ''UNKNOWN''
                | Some c \<Rightarrow> if truthy c then c else PStr ''UNKNOWN'')
           \<and> raw_response_bytes e = Some bs \<and> status_code e = sc \<and> reason e = rsn"
  using assms
  by (auto simp: http_init_defs dict_get_def http_status_message_def split: option.splits)

theorem http_body_mapping_witness:
  "\<exists>e. DaprHttpError_init
           (returning (PDict [(''message'', PStr ''db down''), (''errorCode'', PStr ''ERR_DB'')]))
           (Some [0x7B]) (Some 500) None = Inr e
       \<and> message e = PStr ''db down'' \<and> error_code e = PStr ''ERR_DB''"
  using http_body_mapping [of "[0x7B]"
      "returning (PDict [(''message'', PStr ''db down''), (''errorCode'', PStr ''ERR_DB'')])"
      "[(''message'', PStr ''db down''), (''errorCode'', PStr ''ERR_DB'')]" "Some 500" None]
  by (auto simp: returning_def)

text \<open>
  The claim as it was stated has the message equal to the mapping's \<^verbatim>\<open>message\<close> whenever
  that value is not \<^verbatim>\<open>None\<close>. With the body \<^verbatim>\<open>{"message": "", "errorCode": "ERR_DB"}\<close> and
  status 500 the message of the error is \<^verbatim>\<open>HTTP status code: 500\<close>, not the empty string.
\<close>

theorem http_body_mapping_counterexample:
  "DaprHttpError_init
       (returning (PDict [(''message'', PStr []), (''errorCode'', PStr ''ERR_DB'')]))
       (Some [0x7B]) (Some 500) None =
     Inr \<lparr> message = PStr ''HTTP status code: 500'',
           error_code = PStr ''ERR_DB'',
           raw_response_bytes = Some [0x7B],
           status_code = Some 500, reason = None \<rparr>
   \<and> PStr ''HTTP status code: 500'' \<noteq> PStr []"
  by (simp add: http_init_defs returning_def dict_get_def http_status_message_def
      str_opt_int_def str_int_500)

section \<open>DaprHttpError: string rendering\<close>

lemma http_str_classified_neq:
  "xs @ '' (Error Code: '' @ ys @ '', Status Code: '' @ zs @ '')'' \<noteq> us @ ''.''"
proof
  assume "xs @ '' (Error Code: '' @ ys @ '', Status Code: '' @ zs @ '')'' = us @ ''.''"
  then have "last (xs @ '' (Error Code: '' @ ys @ '', Status Code: '' @ zs @ '')'')
               = last (us @ ''.'')"
    by simp
  then show False by simp
qed

text \<open>
  C6. The rendering \<^verbatim>\<open>Unknown Dapr Error. HTTP status code: {status_code}.\<close> is produced
  exactly when the error code is \<^verbatim>\<open>UNKNOWN\<close>, whether or not a message was read from the
  body. When the body deserializes to a mapping with a non-empty string \<^verbatim>\<open>message\<close> and a
  true \<^verbatim>\<open>errorCode\<close> other than \<^verbatim>\<open>UNKNOWN\<close>, the rendering is
  \<^verbatim>\<open>{message} (Error Code: {errorCode}, Status Code: {status_code})\<close>.
\<close>

theorem http_str_fallback:
  "(DaprHttpError_str repr e =
      ''Unknown Dapr Error. HTTP status code: '' @ str_opt_int (status_code e) @ ''.'')
     = (error_code e = PStr ''UNKNOWN'')
   \<and> (bs \<noteq> [] \<and> serializer bs = Inr (PDict d) \<and> map_of d ''message'' = Some (PStr m)
        \<and> m \<noteq> [] \<and> map_of d ''errorCode'' = Some c \<and> truthy c \<and> c \<noteq> PStr ''UNKNOWN''
      \<longrightarrow> (\<exists>e'. DaprHttpError_init serializer (Some bs) sc rsn = Inr e'
            \<and> DaprHttpError_str repr e' =
                m @ '' (Error Code: '' @ py_str repr c @ '', Status Code: ''
                  @ str_opt_int sc @ '')''))"
proof (intro conjI impI)
  show "(DaprHttpError_str repr e =
           ''Unknown Dapr Error. HTTP status code: '' @ str_opt_int (status_code e) @ ''.'')
     = (error_code e = PStr ''UNKNOWN'')"
    using http_str_classified_neq [of "py_str repr (message e)" "py_str repr (error_code e)"
        "str_opt_int (status_code e)"
        "''Unknown Dapr Error. HTTP status code: '' @ str_opt_int (status_code e)"]
    by (simp add: DaprHttpError_str_def ERROR_CODE_UNKNOWN_def)
next
  assume a: "bs \<noteq> [] \<and> serializer bs = Inr (PDict d) \<and> map_of d ''message'' = Some (PStr m)
        \<and> m \<noteq> [] \<and> map_of d ''errorCode'' = Some c \<and> truthy c \<and> c \<noteq> PStr ''UNKNOWN''"
  then have "d \<noteq> []" by auto
  with a show "\<exists>e'. DaprHttpError_init serializer (Some bs) sc rsn = Inr e'
            \<and> DaprHttpError_str repr e' =
                m @ '' (Error Code: '' @ py_str repr c @ '', Status Code: ''
                  @ str_opt_int sc @ '')''"
    by (auto simp: http_init_defs dict_get_def http_status_message_def DaprHttpError_str_def
        py_str_def)
qed

theorem http_str_fallback_witness:
  "\<exists>e'. DaprHttpError_init
           (returning (PDict [(''message'', PStr ''db down''), (''errorCode'', PStr ''ERR_DB'')]))
           (Some [0x7B]) (Some 500) None = Inr e'
       \<and> DaprHttpError_str no_repr e' = ''db down (Error Code: ERR_DB, Status Code: 500)''"
  using http_str_fallback [of no_repr
      "\<lparr> message = PNone, error_code = PNone, raw_response_bytes = None,
         status_code = None, reason = None \<rparr>" "[0x7B]"
      "returning (PDict [(''message'', PStr ''db down''), (''errorCode'', PStr ''ERR_DB'')])"
      "[(''message'', PStr ''db down''), (''errorCode'', PStr ''ERR_DB'')]" "''db down''"
      "PStr ''ERR_DB''" "Some 500" None]
  by (auto simp: returning_def py_str_def str_opt_int_def str_int_500)

text \<open>
  The claim as it was stated has the rendering include the message whenever the body
  yields one. The body \<^verbatim>\<open>{"message": "db down"}\<close> with status 500 gives an error whose
  message is \<^verbatim>\<open>db down\<close> and whose rendering is the fallback, which does not show it.
\<close>

theorem http_str_counterexample:
  "DaprHttpError_init (returning (PDict [(''message'', PStr ''db down'')]))
       (Some [0x7B]) (Some 500) None =
     Inr \<lparr> message = PStr ''db down'',
           error_code = PStr ''UNKNOWN'',
           raw_response_bytes = Some [0x7B],
           status_code = Some 500, reason = None \<rparr>
   \<and> DaprHttpError_str no_repr
         \<lparr> message = PStr ''db down'',
           error_code = PStr ''UNKNOWN'',
           raw_response_bytes = Some [0x7B],
           status_code = Some 500, reason = None \<rparr> =
       ''Unknown Dapr Error. HTTP status code: 500.''"
  by (simp add: http_init_defs returning_def dict_get_def http_status_message_def
      DaprHttpError_str_def str_opt_int_def str_int_500)

section \<open>The error code is never empty\<close>

lemma read_error_info_code:
  "truthy (snd (read_error_info v))
   \<and> (snd (read_error_info v) = PStr ''UNKNOWN''
      \<or> (\<exists>d. v = PDict d \<and> map_of d ''errorCode'' = Some (snd (read_error_info v))))"
  by (cases v)
     (auto simp: read_error_info_def py_or_def dict_get_def ERROR_CODE_UNKNOWN_def
       split: option.splits)

lemmas http_init_outer_defs =
  DaprHttpError_init_def DaprHttpError_init_traced_def DaprHttpError_classify_def
  DaprInternalError_init_def DaprInternalError.extend_def DaprHttpError.fields_def
  ERROR_CODE_UNKNOWN_def ERROR_CODE_DOES_NOT_EXIST_def

lemma http_init_error_code:
  assumes "DaprHttpError_init serializer rawb sc rsn = Inr e"
  shows "truthy (error_code e)
        \<and> (error_code e = PStr ''UNKNOWN''
           \<or> (error_code e = PStr ''ERR_DOES_NOT_EXIST''
                \<and> (rawb = None \<or> rawb = Some []) \<and> sc = Some 404)
           \<or> (\<exists>bs d. rawb = Some bs \<and> bs \<noteq> [] \<and> serializer bs = Inr (PDict d)
                  \<and> map_of d ''errorCode'' = Some (error_code e)))"
proof (cases "(rawb = None \<or> rawb = Some []) \<and> sc = Some 404")
  case True
  with assms show ?thesis by (auto simp: http_init_outer_defs)
next
  case False
  show ?thesis
  proof (cases rawb)
    case None
    with False assms show ?thesis by (auto simp: http_init_outer_defs)
  next
    case (Some bs)
    show ?thesis
    proof (cases "bs = []")
      case True
      with Some False assms show ?thesis by (auto simp: http_init_outer_defs)
    next
      case nonempty: False
      show ?thesis
      proof (cases "serializer bs")
        case (Inr v)
        with Some nonempty False assms have "error_code e = snd (read_error_info v)"
          by (auto simp: http_init_outer_defs)
        with read_error_info_code [of v] Some nonempty Inr show ?thesis by auto
      next
        case (Inl exn)
        with Some nonempty False assms have "error_code e = snd (read_error_info PNone)"
          by (cases exn) (auto simp: http_init_outer_defs)
        with read_error_info_code [of PNone] show ?thesis by auto
      qed
    qed
  qed
qed

text \<open>
  C7. A DaprInternalError constructed without an error code has the error code
  \<^verbatim>\<open>UNKNOWN\<close>; constructed with one, it stores the value as given. The error code of a
  constructed DaprHttpError is a true value (so neither \<^verbatim>\<open>None\<close> nor empty), and it is
  \<^verbatim>\<open>UNKNOWN\<close> unless the status is 404 with an absent or empty body (\<^verbatim>\<open>ERR_DOES_NOT_EXIST\<close>)
  or the non-empty body deserialized to a mapping whose \<^verbatim>\<open>errorCode\<close> it is.
\<close>

theorem error_code_invariant:
  "error_code (DaprInternalError_init msg None raw) = PStr ''UNKNOWN''
   \<and> error_code (DaprInternalError_init msg (Some c) raw) = c
   \<and> (DaprHttpError_init serializer rawb sc rsn = Inr e \<longrightarrow>
        truthy (error_code e)
        \<and> (error_code e = PStr ''UNKNOWN''
           \<or> (error_code e = PStr ''ERR_DOES_NOT_EXIST''
                \<and> (rawb = None \<or> rawb = Some []) \<and> sc = Some 404)
           \<or> (\<exists>bs d. rawb = Some bs \<and> bs \<noteq> [] \<and> serializer bs = Inr (PDict d)
                  \<and> map_of d ''errorCode'' = Some (error_code e))))"
  using http_init_error_code [of serializer rawb sc rsn e]
  by (simp add: DaprInternalError_init_def ERROR_CODE_UNKNOWN_def)

theorem error_code_invariant_witness:
  "error_code (DaprInternalError_init (PStr ''boom'') None None) = PStr ''UNKNOWN''
   \<and> DaprHttpError_init (returning (PDict [(''errorCode'', PStr ''ERR_DB'')])) (Some [0x7B])
        (Some 500) None =
      Inr \<lparr> message = PStr ''HTTP status code: 500'', error_code = PStr ''ERR_DB'',
            raw_response_bytes = Some [0x7B], status_code = Some 500, reason = None \<rparr>
   \<and> truthy (PStr ''ERR_DB'')"
proof -
  have run: "DaprHttpError_init (returning (PDict [(''errorCode'', PStr ''ERR_DB'')]))
        (Some [0x7B]) (Some 500) None =
      Inr \<lparr> message = PStr ''HTTP status code: 500'', error_code = PStr ''ERR_DB'',
            raw_response_bytes = Some [0x7B], status_code = Some 500, reason = None \<rparr>"
    by (simp add: http_init_defs returning_def dict_get_def http_status_message_def
        str_opt_int_def str_int_500)
  from error_code_invariant [of "PStr ''boom''" None "PStr ''E''"
      "returning (PDict [(''errorCode'', PStr ''ERR_DB'')])" "Some [0x7B]" "Some 500" None
      "\<lparr> message = PStr ''HTTP status code: 500'', error_code = PStr ''ERR_DB'',
            raw_response_bytes = Some [0x7B], status_code = Some 500, reason = None \<rparr>"] run
  show ?thesis by simp
qed

text \<open>
  The claim as it was stated covers every argument that the constructor of
  DaprInternalError accepts. Its parameter \<^verbatim>\<open>error_code\<close> is an \<^verbatim>\<open>Optional[str]\<close>, and
  \<^verbatim>\<open>None\<close> passed for it is stored.
\<close>

theorem internal_error_code_counterexample:
  "error_code (DaprInternalError_init (PStr ''boom'') (Some PNone) None) = PNone"
  by (simp add: DaprInternalError_init_def)

section \<open>DaprGrpcError: parsing the details\<close>

lemma serialize_status_detail_cases:
  "serialize_status_detail d = Inr v \<Longrightarrow> v = PNone \<or> (\<exists>m. MessageToDict d = Inr m \<and> v = PDict m)"
  by (auto simp: serialize_status_detail_def split: if_splits sum.splits)

lemma parse_detail_unrecognised:
  "\<not> recognised d \<Longrightarrow> parse_detail sd d = Inr sd"
  by (simp add: recognised_def known_detail_kinds_def parse_detail_def)

lemma parse_detail_error_info:
  "Is d ''google.rpc.ErrorInfo'' \<Longrightarrow>
   parse_detail sd d =
     (case serialize_status_detail d of Inl exn \<Rightarrow> Inl exn | Inr v \<Rightarrow> Inr (sd\<lparr>error_info := v\<rparr>))"
  by (simp add: parse_detail_def)

lemma parse_detail_other:
  "\<not> Is d ''google.rpc.ErrorInfo'' \<Longrightarrow> parse_detail sd d = Inr sd' \<Longrightarrow>
   error_info sd' = error_info sd"
  by (auto simp: parse_detail_def split: if_splits sum.splits)

lemma parse_detail_raises:
  "parse_detail sd d = Inl exn \<Longrightarrow>
   recognised d \<and> is_truthy d \<and> MessageToDict d = Inl exn"
proof -
  assume a: "parse_detail sd d = Inl exn"
  have r: "recognised d"
  proof (rule ccontr)
    assume "\<not> recognised d"
    from parse_detail_unrecognised [OF this] a show False by simp
  qed
  from a have "serialize_status_detail d = Inl exn"
    by (auto simp: parse_detail_def split: if_splits sum.splits)
  then have "is_truthy d \<and> MessageToDict d = Inl exn"
    by (auto simp: serialize_status_detail_def split: if_splits sum.splits)
  with r show ?thesis by simp
qed

lemma parse_details_loop_append:
  "parse_details_loop sd (xs @ ys) =
     (case parse_details_loop sd xs of Inl exn \<Rightarrow> Inl exn | Inr sd' \<Rightarrow> parse_details_loop sd' ys)"
  by (induction xs arbitrary: sd) (auto split: sum.splits)

lemma parse_details_loop_other:
  "\<forall>d \<in> set ds. \<not> Is d ''google.rpc.ErrorInfo'' \<Longrightarrow> parse_details_loop sd ds = Inr sd' \<Longrightarrow>
   error_info sd' = error_info sd"
proof (induction ds arbitrary: sd)
  case Nil
  then show ?case by simp
next
  case (Cons d ds)
  from Cons.prems(2) obtain sd1 where s1: "parse_detail sd d = Inr sd1"
      and s2: "parse_details_loop sd1 ds = Inr sd'"
    by (auto split: sum.splits)
  from Cons.prems(1) have "\<not> Is d ''google.rpc.ErrorInfo''" by simp
  from parse_detail_other [OF this s1] have "error_info sd1 = error_info sd" .
  moreover from Cons.IH [OF _ s2] Cons.prems(1) have "error_info sd' = error_info sd1" by simp
  ultimately show ?case by simp
qed

lemma parse_details_loop_returns:
  "\<forall>d \<in> set ds. recognised d \<and> is_truthy d \<longrightarrow> (\<exists>m. MessageToDict d = Inr m) \<Longrightarrow>
   \<exists>sd'. parse_details_loop sd ds = Inr sd'"
proof (induction ds arbitrary: sd)
  case Nil
  then show ?case by simp
next
  case (Cons d ds)
  have "\<exists>sd1. parse_detail sd d = Inr sd1"
  proof (cases "parse_detail sd d")
    case (Inl exn)
    from parse_detail_raises [OF this] Cons.prems show ?thesis by auto
  next
    case (Inr sd1)
    then show ?thesis by simp
  qed
  then obtain sd1 where "parse_detail sd d = Inr sd1" ..
  moreover from Cons.IH [of sd1] Cons.prems obtain sd' where "parse_details_loop sd1 ds = Inr sd'"
    by auto
  ultimately show ?case by simp
qed

lemma parse_details_loop_last_error_info:
  assumes "parse_details_loop sd (ds1 @ d # ds2) = Inr sd'"
    and "Is d ''google.rpc.ErrorInfo''"
    and "\<forall>d' \<in> set ds2. \<not> Is d' ''google.rpc.ErrorInfo''"
    and "is_truthy d" and "MessageToDict d = Inr m"
  shows "error_info sd' = PDict m"
proof -
  from assms(1) obtain sd1 where s1: "parse_details_loop sd ds1 = Inr sd1"
      and s2: "parse_details_loop sd1 (d # ds2) = Inr sd'"
    by (auto simp: parse_details_loop_append split: sum.splits)
  from assms(4,5) have "serialize_status_detail d = Inr (PDict m)"
    by (simp add: serialize_status_detail_def)
  with assms(2) have "parse_detail sd1 d = Inr (sd1\<lparr>error_info := PDict m\<rparr>)"
    by (simp add: parse_detail_error_info)
  with s2 have "parse_details_loop (sd1\<lparr>error_info := PDict m\<rparr>) ds2 = Inr sd'" by simp
  from parse_details_loop_other [OF assms(3) this] show ?thesis by simp
qed

lemma error_code_of_error_info:
  "error_info (grpc_details e) = PNone \<Longrightarrow> DaprGrpcError_error_code e = Inr (PStr ''UNKNOWN'')"
  "error_info (grpc_details e) = PDict m \<Longrightarrow>
     DaprGrpcError_error_code e =
       Inr (case map_of m ''reason'' of None \<Rightarrow> PStr ''UNKNOWN'' | Some r \<Rightarrow> r)"
  by (auto simp: DaprGrpcError_error_code_def DaprGrpcError_status_details_def object_truthy_def
      dict_get_def ERROR_CODE_UNKNOWN_def split: option.splits)

lemma init_grpc_details:
  "DaprGrpcError_init err = Inr e \<Longrightarrow>
   \<exists>st. rpc_status_from_call err = Inr st \<and> parse_details StatusDetails_init st = Inr (grpc_details e)
     \<and> grpc_status e = st \<and> grpc_status_code e = rpc_code err \<and> err_message e = rpc_details err"
  by (auto simp: DaprGrpcError_init_def split: sum.splits)

lemmas grpc_run_defs =
  DaprGrpcError_init_def parse_details_def parse_detail_def serialize_status_detail_def
  detail_of_def StatusDetails_init_def quota_err_def quota_detail_def unknown_detail_def

lemma quota_error_run: "DaprGrpcError_init quota_err = Inr quota_error"
  by (simp add: grpc_run_defs quota_error_def)

text \<open>
  C5. For a constructed DaprGrpcError, \<^verbatim>\<open>error_code()\<close> returns \<^verbatim>\<open>UNKNOWN\<close> when no
  structured status was attached to the failure, when the status has no error-info detail,
  and when the error-info mapping has no \<^verbatim>\<open>reason\<close> key; it returns the value under
  \<^verbatim>\<open>reason\<close> when the mapping has that key. The mapping is that of the last error-info
  detail of the status.
\<close>

theorem grpc_error_code:
  assumes "DaprGrpcError_init err = Inr e"
  shows "(rpc_status_from_call err = Inr None \<longrightarrow>
            DaprGrpcError_error_code e = Inr (PStr ''UNKNOWN''))
       \<and> (\<forall>st. rpc_status_from_call err = Inr (Some st)
              \<and> (\<forall>d \<in> set (details st). \<not> Is d ''google.rpc.ErrorInfo'') \<longrightarrow>
            DaprGrpcError_error_code e = Inr (PStr ''UNKNOWN''))
       \<and> (\<forall>m. error_info (DaprGrpcError_status_details e) = PDict m \<and> map_of m ''reason'' = None \<longrightarrow>
            DaprGrpcError_error_code e = Inr (PStr ''UNKNOWN''))
       \<and> (\<forall>m r. error_info (DaprGrpcError_status_details e) = PDict m \<and> map_of m ''reason'' = Some r \<longrightarrow>
            DaprGrpcError_error_code e = Inr r)
       \<and> (\<forall>st ds1 d ds2 m. rpc_status_from_call err = Inr (Some st) \<and> details st = ds1 @ d # ds2
              \<and> Is d ''google.rpc.ErrorInfo'' \<and> (\<forall>d' \<in> set ds2. \<not> Is d' ''google.rpc.ErrorInfo'')
              \<and> is_truthy d \<and> MessageToDict d = Inr m \<longrightarrow>
            error_info (DaprGrpcError_status_details e) = PDict m)"
proof -
  from init_grpc_details [OF assms] obtain st0 where
    st0: "rpc_status_from_call err = Inr st0"
      and pd: "parse_details StatusDetails_init st0 = Inr (grpc_details e)" by auto
  have none: "rpc_status_from_call err = Inr None \<longrightarrow>
            DaprGrpcError_error_code e = Inr (PStr ''UNKNOWN'')"
  proof
    assume "rpc_status_from_call err = Inr None"
    with st0 pd have "grpc_details e = StatusDetails_init" by (simp add: parse_details_def)
    then have "error_info (grpc_details e) = PNone" by (simp add: StatusDetails_init_def)
    then show "DaprGrpcError_error_code e = Inr (PStr ''UNKNOWN'')"
      by (rule error_code_of_error_info)
  qed
  have noinfo: "\<forall>st. rpc_status_from_call err = Inr (Some st)
              \<and> (\<forall>d \<in> set (details st). \<not> Is d ''google.rpc.ErrorInfo'') \<longrightarrow>
            DaprGrpcError_error_code e = Inr (PStr ''UNKNOWN'')"
  proof (intro allI impI, elim conjE)
    fix st
    assume a: "rpc_status_from_call err = Inr (Some st)"
      and b: "\<forall>d \<in> set (details st). \<not> Is d ''google.rpc.ErrorInfo''"
    from a st0 pd have "parse_details_loop StatusDetails_init (details st) = Inr (grpc_details e)"
      by (simp add: parse_details_def)
    from parse_details_loop_other [OF b this] have "error_info (grpc_details e) = PNone"
      by (simp add: StatusDetails_init_def)
    then show "DaprGrpcError_error_code e = Inr (PStr ''UNKNOWN'')"
      by (rule error_code_of_error_info)
  qed
  have noreason: "\<forall>m. error_info (DaprGrpcError_status_details e) = PDict m \<and> map_of m ''reason'' = None \<longrightarrow>
            DaprGrpcError_error_code e = Inr (PStr ''UNKNOWN'')"
    using error_code_of_error_info(2) [of e] by (auto simp: DaprGrpcError_status_details_def)
  have reason: "\<forall>m r. error_info (DaprGrpcError_status_details e) = PDict m \<and> map_of m ''reason'' = Some r \<longrightarrow>
            DaprGrpcError_error_code e = Inr r"
    using error_code_of_error_info(2) [of e] by (auto simp: DaprGrpcError_status_details_def)
  have populated: "\<forall>st ds1 d ds2 m. rpc_status_from_call err = Inr (Some st) \<and> details st = ds1 @ d # ds2
              \<and> Is d ''google.rpc.ErrorInfo'' \<and> (\<forall>d' \<in> set ds2. \<not> Is d' ''google.rpc.ErrorInfo'')
              \<and> is_truthy d \<and> MessageToDict d = Inr m \<longrightarrow>
            error_info (DaprGrpcError_status_details e) = PDict m"
  proof (intro allI impI, elim conjE)
    fix st ds1 d ds2 m
    assume a: "rpc_status_from_call err = Inr (Some st)" and b: "details st = ds1 @ d # ds2"
      and c: "Is d ''google.rpc.ErrorInfo''" "\<forall>d' \<in> set ds2. \<not> Is d' ''google.rpc.ErrorInfo''"
        "is_truthy d" "MessageToDict d = Inr m"
    from a b st0 pd have "parse_details_loop StatusDetails_init (ds1 @ d # ds2) = Inr (grpc_details e)"
      by (simp add: parse_details_def)
    from parse_details_loop_last_error_info [OF this c]
    show "error_info (DaprGrpcError_status_details e) = PDict m"
      by (simp add: DaprGrpcError_status_details_def)
  qed
  from none noinfo noreason reason populated show ?thesis by blast
qed

theorem grpc_error_code_witness:
  "DaprGrpcError_init quota_err = Inr quota_error
   \<and> DaprGrpcError_error_code quota_error = Inr (PStr ''QUOTA_EXCEEDED'')"
proof -
  have "error_info (DaprGrpcError_status_details quota_error) =
          PDict [(''@type'', PStr ''type.googleapis.com/google.rpc.ErrorInfo''),
                 (''reason'', PStr ''QUOTA_EXCEEDED''), (''domain'', PStr ''dapr.io'')]
        \<and> map_of [(''@type'', PStr ''type.googleapis.com/google.rpc.ErrorInfo''),
                 (''reason'', PStr ''QUOTA_EXCEEDED''), (''domain'', PStr ''dapr.io'')] ''reason''
            = Some (PStr ''QUOTA_EXCEEDED'')"
    by (simp add: DaprGrpcError_status_details_def quota_error_def StatusDetails_init_def)
  with grpc_error_code [OF quota_error_run]
  have "DaprGrpcError_error_code quota_error = Inr (PStr ''QUOTA_EXCEEDED'')" by blast
  with quota_error_run show ?thesis by simp
qed

section \<open>The constructors return\<close>

text \<open>
  C3. For a deserializer that returns one of the built-in values (\<^verbatim>\<open>None\<close>, a \<^verbatim>\<open>bool\<close>, an
  \<^verbatim>\<open>int\<close>, a \<^verbatim>\<open>str\<close>, \<^verbatim>\<open>bytes\<close>, a \<^verbatim>\<open>list\<close> or a \<^verbatim>\<open>dict\<close> with string keys, of such
  values) or raises, the constructor of DaprHttpError raises exactly when the body is not
  empty and the deserializer raises on it an exception that is not an instance of
  \<^verbatim>\<open>Exception\<close>; in every other case it returns an error. The truth tests of lines 131, 133
  and 136 are outside the \<^verbatim>\<open>try\<close>: they cannot raise on the built-in values, and an object
  of another class, whose \<^verbatim>\<open>bool()\<close> may raise, is not among the values considered. The
  constructor of DaprGrpcError returns an error when \<^verbatim>\<open>rpc_status.from_call\<close> returns no
  status, and when it returns a status each of whose recognised details \<^verbatim>\<open>MessageToDict\<close>
  converts; details of other kinds are skipped.
\<close>

theorem constructors_return:
  "(DaprHttpError_init serializer raw sc rsn = Inl x)
     = (\<exists>bs n. raw = Some bs \<and> bs \<noteq> [] \<and> serializer bs = Inl (Raised_BaseException n)
          \<and> x = Raised_BaseException n)
   \<and> (rpc_status_from_call err = Inr None \<longrightarrow> (\<exists>e. DaprGrpcError_init err = Inr e))
   \<and> (\<forall>st. rpc_status_from_call err = Inr (Some st)
          \<and> (\<forall>d \<in> set (details st).
                recognised d \<and> is_truthy d \<longrightarrow> (\<exists>m. MessageToDict d = Inr m)) \<longrightarrow>
        (\<exists>e. DaprGrpcError_init err = Inr e))"
proof (intro conjI)
  show "(DaprHttpError_init serializer raw sc rsn = Inl x)
     = (\<exists>bs n. raw = Some bs \<and> bs \<noteq> [] \<and> serializer bs = Inl (Raised_BaseException n)
          \<and> x = Raised_BaseException n)"
    by (auto simp: http_init_outer_defs split: option.splits sum.splits raised.splits if_splits)
next
  show "rpc_status_from_call err = Inr None \<longrightarrow> (\<exists>e. DaprGrpcError_init err = Inr e)"
    by (simp add: DaprGrpcError_init_def parse_details_def)
next
  show "\<forall>st. rpc_status_from_call err = Inr (Some st)
          \<and> (\<forall>d \<in> set (details st).
                recognised d \<and> is_truthy d \<longrightarrow> (\<exists>m. MessageToDict d = Inr m)) \<longrightarrow>
        (\<exists>e. DaprGrpcError_init err = Inr e)"
  proof (intro allI impI, elim conjE)
    fix st
    assume a: "rpc_status_from_call err = Inr (Some st)"
      and b: "\<forall>d \<in> set (details st). recognised d \<and> is_truthy d \<longrightarrow> (\<exists>m. MessageToDict d = Inr m)"
    from parse_details_loop_returns [OF b, of StatusDetails_init]
    obtain sd where "parse_details_loop StatusDetails_init (details st) = Inr sd" ..
    with a show "\<exists>e. DaprGrpcError_init err = Inr e"
      by (simp add: DaprGrpcError_init_def parse_details_def)
  qed
qed

theorem constructors_return_witness:
  "(\<exists>e. DaprGrpcError_init quota_err = Inr e)
   \<and> DaprHttpError_init (raising (Raised_Exception ''ValueError'')) (Some [0x7B]) (Some 500) None
       \<noteq> Inl (Raised_Exception ''ValueError'')"
proof -
  have d: "\<forall>d \<in> set (details \<lparr> details = [unknown_detail, quota_detail] \<rparr>).
             recognised d \<and> is_truthy d \<longrightarrow> (\<exists>m. MessageToDict d = Inr m)"
    by (simp add: unknown_detail_def quota_detail_def detail_of_def)
  have f: "rpc_status_from_call quota_err = Inr (Some \<lparr> details = [unknown_detail, quota_detail] \<rparr>)"
    by (simp add: quota_err_def)
  from constructors_return [of "raising (Raised_Exception ''ValueError'')" "Some [0x7B]" "Some 500"
      None "Raised_Exception ''ValueError''" quota_err] d f
  show ?thesis by (simp add: raising_def)
qed

text \<open>
  The claim as it was stated has the constructor of DaprGrpcError return for every
  failed call, a mismatched status in the trailing metadata included. The constructor
  calls \<^verbatim>\<open>rpc_status.from_call\<close> outside any \<^verbatim>\<open>try\<close>: when that call raises, so does the
  constructor.
\<close>

theorem grpc_from_call_raises_counterexample:
  "DaprGrpcError_init mismatch_err = Inl (Raised_Exception ''ValueError'')"
  by (simp add: DaprGrpcError_init_def mismatch_err_def)

section \<open>JSON\<close>

lemma dict_set_fresh: "k \<notin> fst ` set acc \<Longrightarrow> dict_set acc k v = acc @ [(k, v)]"
  by (induction acc) auto

lemma json_loads_items_distinct:
  "distinct (map fst acc @ map fst kjs) \<Longrightarrow>
   json_loads_items acc kjs = acc @ map (\<lambda>(k, j). (k, json_loads j)) kjs"
proof (induction kjs arbitrary: acc)
  case Nil
  then show ?case by simp
next
  case (Cons kj kjs)
  obtain k j where kj: "kj = (k, j)" by (cases kj)
  from Cons.prems kj have fresh: "k \<notin> fst ` set acc" by auto
  from Cons.prems kj have "distinct (map fst (acc @ [(k, json_loads j)]) @ map fst kjs)" by auto
  from Cons.IH [OF this] fresh kj show ?case by (simp add: dict_set_fresh)
qed

lemma json_dumps_loads:
  "json_ok v \<Longrightarrow> \<exists>j. json_dumps v = Inr j \<and> json_loads j = v"
  "json_ok_list vs \<Longrightarrow> \<exists>js. json_dumps_list vs = Inr js \<and> json_loads_list js = vs"
  "json_ok_items kvs \<Longrightarrow>
     \<exists>js. json_dumps_items kvs = Inr js \<and> map (\<lambda>(k, j). (k, json_loads j)) js = kvs"
proof (induction v and vs and kvs rule: json_dumps_json_dumps_list_json_dumps_items.induct)
  case (7 kvs)
  then obtain js where js: "json_dumps_items kvs = Inr js"
      "map (\<lambda>(k, j). (k, json_loads j)) js = kvs" by auto
  from js(2) have "map fst js = map fst kvs" by (auto simp: map_eq_conv split_beta)
  with 7(2) have "distinct (map fst [] @ map fst js)" by simp
  from json_loads_items_distinct [OF this] js show ?case by simp
qed auto

lemma parse_detail_error_info_shape:
  assumes "parse_detail sd d = Inr sd'"
    and "error_info sd = PNone \<or> isinstance_dict (error_info sd)"
  shows "error_info sd' = PNone \<or> isinstance_dict (error_info sd')"
proof (cases "Is d ''google.rpc.ErrorInfo''")
  case True
  with assms(1) obtain v where v: "serialize_status_detail d = Inr v" and "sd' = sd\<lparr>error_info := v\<rparr>"
    by (auto simp: parse_detail_error_info split: sum.splits)
  with serialize_status_detail_cases [OF v] show ?thesis by auto
next
  case False
  from parse_detail_other [OF this assms(1)] assms(2) show ?thesis by simp
qed

lemma parse_details_loop_error_info_shape:
  "parse_details_loop sd ds = Inr sd' \<Longrightarrow>
   error_info sd = PNone \<or> isinstance_dict (error_info sd) \<Longrightarrow>
   error_info sd' = PNone \<or> isinstance_dict (error_info sd')"
proof (induction ds arbitrary: sd)
  case Nil
  then show ?case by simp
next
  case (Cons d ds)
  from Cons.prems(1) obtain sd1 where s1: "parse_detail sd d = Inr sd1"
      and s2: "parse_details_loop sd1 ds = Inr sd'"
    by (auto split: sum.splits)
  from parse_detail_error_info_shape [OF s1 Cons.prems(2)] Cons.IH [OF s2] show ?case by blast
qed

lemma init_error_info_shape:
  assumes "DaprGrpcError_init err = Inr e"
  shows "error_info (grpc_details e) = PNone \<or> isinstance_dict (error_info (grpc_details e))"
proof -
  from init_grpc_details [OF assms] obtain st where
    pd: "parse_details StatusDetails_init st = Inr (grpc_details e)" by auto
  show ?thesis
  proof (cases st)
    case None
    with pd have "grpc_details e = StatusDetails_init" by (simp add: parse_details_def)
    then show ?thesis by (simp add: StatusDetails_init_def)
  next
    case (Some s)
    with pd have "parse_details_loop StatusDetails_init (details s) = Inr (grpc_details e)"
      by (simp add: parse_details_def)
    from parse_details_loop_error_info_shape [OF this] show ?thesis
      by (simp add: StatusDetails_init_def)
  qed
qed

lemma json_ok_items_lookup:
  "json_ok_items m \<Longrightarrow> map_of m k = Some r \<Longrightarrow> json_ok r"
  by (induction m) (auto split: if_splits)

lemma isinstance_dict_iff: "isinstance_dict v = (\<exists>m. v = PDict m)"
  by (cases v) auto

lemma init_error_code_returns:
  assumes "DaprGrpcError_init err = Inr e" and "json_ok (error_info (grpc_details e))"
  shows "\<exists>code. DaprGrpcError_error_code e = Inr code \<and> json_ok code"
proof -
  from init_error_info_shape [OF assms(1)] consider
    "error_info (grpc_details e) = PNone" | m where "error_info (grpc_details e) = PDict m"
    by (auto simp: isinstance_dict_iff)
  then show ?thesis
  proof cases
    case 1
    from error_code_of_error_info(1) [OF this] show ?thesis by simp
  next
    case 2
    with assms(2) have "json_ok_items m" by simp
    with error_code_of_error_info(2) [OF 2] json_ok_items_lookup [of m "''reason''"]
    show ?thesis by (auto split: option.splits)
  qed
qed

text \<open>
  C9. For a constructed DaprGrpcError whose detail mappings are JSON values, \<^verbatim>\<open>json()\<close>
  returns a document that decodes to an object with exactly the keys \<^verbatim>\<open>status_code\<close> (the
  name of the member of the enumeration that \<^verbatim>\<open>code()\<close> returns), \<^verbatim>\<open>message\<close> (what
  \<^verbatim>\<open>details()\<close> returns), \<^verbatim>\<open>error_code\<close> (what \<^verbatim>\<open>error_code()\<close> returns) and \<^verbatim>\<open>details\<close>,
  and \<^verbatim>\<open>details\<close> has the ten field names, those whose value is \<^verbatim>\<open>None\<close> included.
\<close>

theorem grpc_json:
  assumes "DaprGrpcError_init err = Inr e"
    and "json_ok_items (StatusDetails_as_dict (DaprGrpcError_status_details e))"
  shows "\<exists>doc code. DaprGrpcError_error_code e = Inr code \<and> DaprGrpcError_json e = Inr doc
     \<and> json_loads doc =
         PDict [(''status_code'', PStr (enum_name (DaprGrpcError_code e))),
                (''message'', opt_str (DaprGrpcError_details e)),
                (''error_code'', code),
                (''details'',
                 PDict [(''error_info'', error_info (DaprGrpcError_status_details e)),
                        (''retry_info'', retry_info (DaprGrpcError_status_details e)),
                        (''debug_info'', debug_info (DaprGrpcError_status_details e)),
                        (''quota_failure'', quota_failure (DaprGrpcError_status_details e)),
                        (''precondition_failure'',
                           precondition_failure (DaprGrpcError_status_details e)),
                        (''bad_request'', bad_request (DaprGrpcError_status_details e)),
                        (''request_info'', request_info (DaprGrpcError_status_details e)),
                        (''resource_info'', resource_info (DaprGrpcError_status_details e)),
                        (''help'', help (DaprGrpcError_status_details e)),
                        (''localized_message'',
                           localized_message (DaprGrpcError_status_details e))])]"
proof -
  let ?sd = "grpc_details e"
  from assms(2) have ok: "json_ok_items (StatusDetails_as_dict ?sd)"
    by (simp add: DaprGrpcError_status_details_def)
  then have "json_ok (error_info ?sd)" by (simp add: StatusDetails_as_dict_def)
  from init_error_code_returns [OF assms(1) this] obtain code where
    code: "DaprGrpcError_error_code e = Inr code" "json_ok code" by auto
  let ?d = "PDict [(''status_code'', PStr (enum_name (DaprGrpcError_code e))),
                (''message'', opt_str (DaprGrpcError_details e)),
                (''error_code'', code),
                (''details'', PDict (StatusDetails_as_dict ?sd))]"
  have "distinct (map fst (StatusDetails_as_dict ?sd))"
    by (simp add: StatusDetails_as_dict_def)
  with ok code(2) have "json_ok ?d" by (simp add: opt_str_def split: option.splits)
  from json_dumps_loads(1) [OF this] obtain doc where
    doc: "json_dumps ?d = Inr doc" "json_loads doc = ?d" by auto
  from code(1) doc(1) have "DaprGrpcError_json e = Inr doc"
    by (simp add: DaprGrpcError_json_def)
  with code(1) doc(2) show ?thesis
    by (simp add: StatusDetails_as_dict_def DaprGrpcError_status_details_def)
qed

theorem grpc_json_witness:
  "\<exists>doc. DaprGrpcError_json quota_error = Inr doc
     \<and> json_loads doc =
         PDict [(''status_code'', PStr ''RESOURCE_EXHAUSTED''),
                (''message'', PStr ''quota exceeded''),
                (''error_code'', PStr ''QUOTA_EXCEEDED''),
                (''details'',
                 PDict [(''error_info'',
                          PDict [(''@type'', PStr ''type.googleapis.com/google.rpc.ErrorInfo''),
                                 (''reason'', PStr ''QUOTA_EXCEEDED''),
                                 (''domain'', PStr ''dapr.io'')]),
                        (''retry_info'', PNone),
                        (''debug_info'', PNone),
                        (''quota_failure'', PNone),
                        (''precondition_failure'', PNone),
                        (''bad_request'', PNone),
                        (''request_info'', PNone),
                        (''resource_info'', PNone),
                        (''help'', PNone),
                        (''localized_message'', PNone)])]"
proof -
  have ok: "json_ok_items (StatusDetails_as_dict (DaprGrpcError_status_details quota_error))"
    by (simp add: StatusDetails_as_dict_def DaprGrpcError_status_details_def quota_error_def
        StatusDetails_init_def)
  have code: "DaprGrpcError_error_code quota_error = Inr (PStr ''QUOTA_EXCEEDED'')"
    by (simp add: DaprGrpcError_error_code_def DaprGrpcError_status_details_def quota_error_def
        StatusDetails_init_def object_truthy_def dict_get_def)
  from grpc_json [OF quota_error_run ok] code show ?thesis
    by (simp add: DaprGrpcError_status_details_def DaprGrpcError_code_def
        DaprGrpcError_details_def opt_str_def quota_error_def StatusDetails_init_def)
qed

section \<open>The JSON-safe dictionary\<close>

lemma b64_char_in_alphabet: "b64_char n \<in> set b64_alphabet"
proof -
  have "length b64_alphabet = 64" by (simp add: b64_alphabet_def)
  then have "n mod 64 < length b64_alphabet" by simp
  then show ?thesis unfolding b64_char_def by (rule nth_mem)
qed

lemma b64encode_chars: "set (b64encode bs) \<subseteq> set b64_alphabet \<union> {CHR ''=''}"
  by (induction bs rule: b64encode.induct) (auto simp: Let_def b64_char_in_alphabet)





end
